theory Spec2Isabelle
  imports Main
begin

section \<open>Strings of the platform\<close>

text \<open>
  The services work on JavaScript strings. The few string operations they call are
  written out here on \<open>string\<close> (a list of characters); only ASCII text matters to the
  routes, methods and actions of the catalog.
\<close>

text \<open>\<open>s.split(c)\<close> for a one-character separator: the pieces between the separators,
  empty pieces included, so the empty string splits into one empty piece.\<close>

fun js_split :: "char \<Rightarrow> string \<Rightarrow> string list" where
  "js_split c [] = [[]]"
| "js_split c (x # xs) =
     (if x = c then [] # js_split c xs
      else (case js_split c xs of
              [] \<Rightarrow> [[x]]
            | w # ws \<Rightarrow> (x # w) # ws))"

text \<open>\<open>s.startsWith(p)\<close>, \<open>s.endsWith(p)\<close> and \<open>s.includes(c)\<close>.\<close>

definition startsWith :: "string \<Rightarrow> string \<Rightarrow> bool" where
  "startsWith s p = (take (length p) s = p)"

definition endsWith :: "string \<Rightarrow> string \<Rightarrow> bool" where
  "endsWith s p = (drop (length s - length p) s = p \<and> length p \<le> length s)"

definition js_includes :: "string \<Rightarrow> char \<Rightarrow> bool" where
  "js_includes s c = (c \<in> set s)"

text \<open>\<open>xs.filter(Boolean)\<close> on an array of strings drops the empty ones.\<close>

definition filterBoolean :: "string list \<Rightarrow> string list" where
  "filterBoolean xs = filter (\<lambda>w. w \<noteq> []) xs"

text \<open>The character class \<open>\d\<close> of the route regular expressions.\<close>

definition isDigit :: "char \<Rightarrow> bool" where
  "isDigit c = (c \<in> set ''0123456789'')"

text \<open>\<open>s.toLowerCase()\<close> on ASCII letters.\<close>

definition toLowerChar :: "char \<Rightarrow> char" where
  "toLowerChar c =
     (let n = (of_char c :: nat) in if 65 \<le> n \<and> n \<le> 90 then char_of (n + 32) else c)"

definition toLowerCase :: "string \<Rightarrow> string" where
  "toLowerCase s = map toLowerChar s"

text \<open>\<open>[...new Set(xs)]\<close>: the first occurrence of every element, in order.\<close>

fun uniqueFrom :: "'a list \<Rightarrow> 'a list \<Rightarrow> 'a list" where
  "uniqueFrom seen [] = []"
| "uniqueFrom seen (x # xs) =
     (if x \<in> set seen then uniqueFrom seen xs else x # uniqueFrom (x # seen) xs)"

definition unique :: "'a list \<Rightarrow> 'a list" where
  "unique xs = uniqueFrom [] xs"


section \<open>Errors\<close>

text \<open>
  Every exception the modelled code throws. \<open>validateToken\<close> catches whatever is thrown
  inside it and throws \<open>UnauthorizedException("Invalid token: " + error)\<close>; the cause
  stays readable in the message and is kept here as the argument of \<open>InvalidToken\<close>.
  \<open>UnauthorizedException\<close>, \<open>ForbiddenException\<close> and \<open>BadRequestException\<close> carry the
  statuses 401, 403 and 400. \<open>Error\<close> is the plain \<open>Error\<close> the permission service
  throws; the controller answers 409 for \<open>PermissionAlreadyExists\<close> and 400 for
  \<open>ActionFormat\<close>. \<open>TypeError\<close> is what the URL constructor of the platform throws on
  text that is no URL, and \<open>QueryFailedError\<close> what the store raises when it refuses a
  row; neither is an HTTP exception, and the error handler answers them with 500.
\<close>

datatype cause =
    TokenInvalidated
  | JwtVerifyFailed
  | InvalidTokenType
  | UserMissingOrInactive
  | RolesChanged
  | RolesNotAnArray

datatype unauthorizedMessage = NoTokenProvided | InvalidToken cause

datatype errorMessage = PermissionAlreadyExists | ActionFormat

datatype exn =
    UnauthorizedException unauthorizedMessage
  | ForbiddenException
  | BadRequestException
  | Error errorMessage
  | TypeError
  | QueryFailedError


section \<open>Permission catalog (PermissionService)\<close>

text \<open>
  A permission row: method, route pattern and action. The permission table is the list
  of rows in stored order; \<open>findOne\<close> yields the first row that satisfies the condition
  and \<open>find\<close> all of them in that order. The service keeps its cache in a \<open>Map\<close> from
  the key \<open>method:route\<close> to the action, the empty string recording a miss.
\<close>

record permission =
  p_method :: string
  p_route :: string
  p_action :: string

record permissionService =
  permissionRepo :: "permission list"
  cache :: "string \<rightharpoonup> string"

definition cacheKey :: "string \<Rightarrow> string \<Rightarrow> string" where
  "cacheKey m r = m @ '':'' @ r"

text \<open>The loop of \<open>matchesRoutePattern\<close> over two arrays of the same length.\<close>

fun segmentsMatch :: "string list \<Rightarrow> string list \<Rightarrow> bool" where
  "segmentsMatch (actualSegment # as) (patternSegment # ps) =
     (if startsWith patternSegment '':'' then segmentsMatch as ps
      else if actualSegment \<noteq> patternSegment then False
      else segmentsMatch as ps)"
| "segmentsMatch _ _ = True"

definition matchesRoutePattern :: "string \<Rightarrow> string \<Rightarrow> bool" where
  "matchesRoutePattern actualRoute patternRoute =
     (if actualRoute = patternRoute then True
      else
        (let actualSegments = filterBoolean (js_split CHR ''/'' actualRoute);
             patternSegments = filterBoolean (js_split CHR ''/'' patternRoute)
         in if length actualSegments \<noteq> length patternSegments then False
            else segmentsMatch actualSegments patternSegments))"

definition findPermissionByPattern :: "permission list \<Rightarrow> string \<Rightarrow> string \<Rightarrow> permission option" where
  "findPermissionByPattern repo m r =
     find (\<lambda>p. matchesRoutePattern r (p_route p)) (filter (\<lambda>p. p_method p = m) repo)"

definition getAction :: "permissionService \<Rightarrow> string \<Rightarrow> string \<Rightarrow> permissionService \<times> string option" where
  "getAction svc m r =
     (let key = cacheKey m r in
      case cache svc key of
        Some cachedAction \<Rightarrow> (svc, if cachedAction = [] then None else Some cachedAction)
      | None \<Rightarrow>
          (case (case find (\<lambda>p. p_method p = m \<and> p_route p = r) (permissionRepo svc) of
                   None \<Rightarrow> findPermissionByPattern (permissionRepo svc) m r
                 | Some p \<Rightarrow> Some p) of
             Some p \<Rightarrow> (svc\<lparr>cache := (cache svc)(key \<mapsto> p_action p)\<rparr>, Some (p_action p))
           | None \<Rightarrow> (svc\<lparr>cache := (cache svc)(key \<mapsto> [])\<rparr>, None)))"

text \<open>The regular expression \<open>^\/api\/v\d+\/\<close>: when the route begins with it, the
  matched prefix is replaced by a single slash. Both \<open>normalizeRouteForStorage\<close> of the
  service and \<open>stripApiVersion\<close> of the middleware are this function.\<close>

definition stripApiVersion :: "string \<Rightarrow> string" where
  "stripApiVersion r =
     (if startsWith r ''/api/v'' then
        (let rest = drop 6 r;
             digits = takeWhile isDigit rest;
             after = dropWhile isDigit rest
         in if digits \<noteq> [] \<and> startsWith after ''/'' then after else r)
      else r)"

definition normalizeRouteForStorage :: "string \<Rightarrow> string" where
  "normalizeRouteForStorage r = stripApiVersion r"

text \<open>The action check of both creating paths:
  \<open>!action.includes(':') || action.split(':').length !== 2\<close>.\<close>

definition invalidActionFormat :: "string \<Rightarrow> bool" where
  "invalidActionFormat a =
     (if js_includes a CHR '':'' then length (js_split CHR '':'' a) \<noteq> 2 else True)"

definition findOrCreatePermission ::
  "permissionService \<Rightarrow> string \<Rightarrow> string \<Rightarrow> string \<Rightarrow> permissionService \<times> permission" where
  "findOrCreatePermission svc m r a =
     (case find (\<lambda>p. p_method p = m \<and> p_route p = r \<and> p_action p = a) (permissionRepo svc) of
        Some p \<Rightarrow> (svc, p)
      | None \<Rightarrow>
          (let p = \<lparr>p_method = m, p_route = r, p_action = a\<rparr>
           in (svc\<lparr>permissionRepo := permissionRepo svc @ [p]\<rparr>, p)))"

definition findOrCreatePermissionInternal ::
  "permissionService \<Rightarrow> string \<Rightarrow> string \<Rightarrow> string \<Rightarrow> permissionService \<times> (exn + permission)" where
  "findOrCreatePermissionInternal svc m r a =
     (let normalizedRoute = normalizeRouteForStorage r in
      case find (\<lambda>p. p_method p = m \<and> p_route p = normalizedRoute \<and> p_action p = a)
             (permissionRepo svc) of
        Some p \<Rightarrow> (svc, Inr p)
      | None \<Rightarrow>
          if invalidActionFormat a then (svc, Inl (Error ActionFormat))
          else
            (let p = \<lparr>p_method = m, p_route = normalizedRoute, p_action = a\<rparr>
             in (svc\<lparr>permissionRepo := permissionRepo svc @ [p]\<rparr>, Inr p)))"

definition createPermission ::
  "permissionService \<Rightarrow> string \<Rightarrow> string \<Rightarrow> string \<Rightarrow> permissionService \<times> (exn + permission)" where
  "createPermission svc m r a =
     (case find (\<lambda>p. p_method p = m \<and> p_route p = r \<and> p_action p = a) (permissionRepo svc) of
        Some existingPermission \<Rightarrow> (svc, Inl (Error PermissionAlreadyExists))
      | None \<Rightarrow>
          if invalidActionFormat a then (svc, Inl (Error ActionFormat))
          else
            (let p = \<lparr>p_method = m, p_route = r, p_action = a\<rparr>
             in (svc\<lparr>permissionRepo := permissionRepo svc @ [p],
                      cache := (cache svc)(cacheKey m r := None)\<rparr>, Inr p)))"


section \<open>Principals, roles and grants\<close>

text \<open>
  The rows of the store, with the columns the modelled code reads. \<open>roles\<close> of a user is
  what the getter of the entity returns once the \<open>userRoles\<close> relation is loaded: the
  role entities of the user's assignments. A grant row is the join of \<open>role_permissions\<close>
  with its role and its permission.
\<close>

record role =
  role_id :: nat
  role_name :: string

record user =
  pid :: string
  email :: string
  isActive :: bool
  roles :: "role list"

record rolePermission =
  rp_role :: role
  rp_permission :: permission


section \<open>Signed tokens\<close>

text \<open>
  The payload of a token, as the service reads it after decoding: every field may be
  missing. Access tokens carry the role entities of the user (\<open>roles: user.roles\<close>), and
  \<open>validateToken\<close> reads their \<open>name\<close>.

  Modelled from the platform (the JWT library is not part of the repository): a token
  string is either the compact form of a payload signed with some key, or text that
  does not decode. Two token values are equal exactly when the strings are: the string
  is determined by the payload and the key. \<open>jwt_sign\<close> stamps \<open>iat\<close> and \<open>exp\<close> from the
  clock (in seconds) and the lifetime; \<open>jwt_verify\<close> accepts a token signed with the
  given key whose \<open>exp\<close>, when present, lies after the clock; \<open>jwt_decode\<close> reads the
  payload and checks nothing.
\<close>

record payload =
  jwt_sub :: "string option"
  jwt_type :: "string option"
  jwt_email :: "string option"
  jwt_roles :: "role list option"
  jwt_iat :: "nat option"
  jwt_exp :: "nat option"

datatype tokenString = Jwt payload string | Malformed string

definition jwt_sign :: "payload \<Rightarrow> string \<Rightarrow> nat \<Rightarrow> nat \<Rightarrow> tokenString" where
  "jwt_sign p secretOrKey expiresIn now =
     Jwt (p\<lparr>jwt_iat := Some now, jwt_exp := Some (now + expiresIn)\<rparr>) secretOrKey"

definition jwt_verify :: "tokenString \<Rightarrow> string \<Rightarrow> nat \<Rightarrow> payload option" where
  "jwt_verify t secretOrKey now =
     (case t of
        Malformed _ \<Rightarrow> None
      | Jwt p k \<Rightarrow>
          if k \<noteq> secretOrKey then None
          else (case jwt_exp p of
                  None \<Rightarrow> Some p
                | Some e \<Rightarrow> if e \<le> now then None else Some p))"

definition jwt_decode :: "tokenString \<Rightarrow> payload option" where
  "jwt_decode t = (case t of Malformed _ \<Rightarrow> None | Jwt p k \<Rightarrow> Some p)"

text \<open>The configuration: the shared secret and the two lifetimes, in seconds, as the
  signing library resolves the configured number or duration text.\<close>

record jwtConfig =
  secret :: string
  accessTokenExpiry :: nat
  refreshTokenExpiry :: nat

datatype tokenType = Access | Refresh

fun typeName :: "tokenType \<Rightarrow> string" where
  "typeName Access = ''access''"
| "typeName Refresh = ''refresh''"


section \<open>Token service (AuthService)\<close>

record tokenBlacklist =
  bl_token :: tokenString
  bl_expiresAt :: nat
  bl_userId :: string
  bl_reason :: string

record authService =
  userRepository :: "user list"
  rolePermissionRepository :: "rolePermission list"
  tokenBlacklistRepository :: "tokenBlacklist list"

definition generateAccessToken :: "jwtConfig \<Rightarrow> nat \<Rightarrow> user \<Rightarrow> tokenString" where
  "generateAccessToken cfg now u =
     jwt_sign \<lparr>jwt_sub = Some (pid u), jwt_type = Some ''access'', jwt_email = Some (email u),
               jwt_roles = Some (roles u), jwt_iat = None, jwt_exp = None\<rparr>
       (secret cfg) (accessTokenExpiry cfg) now"

definition generateRefreshToken :: "jwtConfig \<Rightarrow> nat \<Rightarrow> user \<Rightarrow> tokenString" where
  "generateRefreshToken cfg now u =
     jwt_sign \<lparr>jwt_sub = Some (pid u), jwt_type = Some ''refresh'', jwt_email = None,
               jwt_roles = None, jwt_iat = None, jwt_exp = None\<rparr>
       (secret cfg) (refreshTokenExpiry cfg) now"

definition isTokenBlacklisted :: "authService \<Rightarrow> tokenString \<Rightarrow> bool" where
  "isTokenBlacklisted svc t =
     (find (\<lambda>b. bl_token b = t) (tokenBlacklistRepository svc) \<noteq> None)"

definition areArraysEqual :: "string list \<Rightarrow> string list \<Rightarrow> bool" where
  "areArraysEqual arr1 arr2 =
     (if length arr1 \<noteq> length arr2 then False
      else list_all (\<lambda>item. item \<in> set arr2) arr1)"

text \<open>\<open>userRepository.findOne({ where: { pid: decoded.sub } })\<close>: the first stored user
  with that external id. When the payload has no subject the condition is
  \<open>undefined\<close>; the object mapper drops such a condition, and the first stored user is
  returned.\<close>

definition findUserByPid :: "authService \<Rightarrow> string option \<Rightarrow> user option" where
  "findUserByPid svc s =
     (case s of
        None \<Rightarrow> (case userRepository svc of [] \<Rightarrow> None | u # _ \<Rightarrow> Some u)
      | Some p \<Rightarrow> find (\<lambda>u. pid u = p) (userRepository svc))"

definition validateToken ::
  "jwtConfig \<Rightarrow> nat \<Rightarrow> authService \<Rightarrow> tokenString \<Rightarrow> tokenType \<Rightarrow> exn + payload" where
  "validateToken cfg now svc t ty =
     (if isTokenBlacklisted svc t then
        Inl (UnauthorizedException (InvalidToken TokenInvalidated))
      else
        (case jwt_verify t (secret cfg) now of
           None \<Rightarrow> Inl (UnauthorizedException (InvalidToken JwtVerifyFailed))
         | Some decoded \<Rightarrow>
             if jwt_type decoded \<noteq> Some (typeName ty) then
               Inl (UnauthorizedException (InvalidToken InvalidTokenType))
             else if ty = Access then
               (case findUserByPid svc (jwt_sub decoded) of
                  None \<Rightarrow> Inl (UnauthorizedException (InvalidToken UserMissingOrInactive))
                | Some u \<Rightarrow>
                    if \<not> isActive u then
                      Inl (UnauthorizedException (InvalidToken UserMissingOrInactive))
                    else
                      (case jwt_roles decoded of
                         None \<Rightarrow> Inl (UnauthorizedException (InvalidToken RolesNotAnArray))
                       | Some decodedRoles \<Rightarrow>
                           if \<not> areArraysEqual (map role_name (roles u))
                                  (map role_name decodedRoles)
                           then Inl (UnauthorizedException (InvalidToken RolesChanged))
                           else Inr decoded))
             else Inr decoded))"

definition refreshAccessToken ::
  "jwtConfig \<Rightarrow> nat \<Rightarrow> authService \<Rightarrow> tokenString
     \<Rightarrow> authService \<times> (tokenString \<times> tokenString) option" where
  "refreshAccessToken cfg now svc refreshToken =
     (case validateToken cfg now svc refreshToken Refresh of
        Inl e \<Rightarrow> (svc, None)
      | Inr decoded \<Rightarrow>
          (case findUserByPid svc (jwt_sub decoded) of
             None \<Rightarrow> (svc, None)
           | Some u \<Rightarrow>
               if \<not> isActive u then (svc, None)
               else (svc, Some (generateAccessToken cfg now u, generateRefreshToken cfg now u))))"


definition truthyString :: "string option \<Rightarrow> bool" where
  "truthyString v = (case v of None \<Rightarrow> False | Some s \<Rightarrow> s \<noteq> [])"

definition blacklistEntry :: "tokenString \<Rightarrow> payload \<Rightarrow> string option \<Rightarrow> tokenBlacklist" where
  "blacklistEntry t decoded userId =
     \<lparr>bl_token = t,
      bl_expiresAt = (case jwt_exp decoded of None \<Rightarrow> 0 | Some e \<Rightarrow> e * 1000),
      bl_userId = (if truthyString userId then (case userId of None \<Rightarrow> [] | Some i \<Rightarrow> i)
                   else (case jwt_sub decoded of None \<Rightarrow> [] | Some s \<Rightarrow> s)),
      bl_reason = ''logout''\<rparr>"



definition saveBlacklist :: "authService \<Rightarrow> tokenBlacklist \<Rightarrow> authService" where
  "saveBlacklist svc b = svc\<lparr>tokenBlacklistRepository := tokenBlacklistRepository svc @ [b]\<rparr>"




text \<open>
  \<open>isAuthorized\<close> is documented to take role names. The value the middleware hands it
  is whatever the request context holds under \<open>roles\<close>; after \<open>authenticate\<close> that is the
  array of role entities of the token. The query compares the \<open>name\<close> column with each
  bound parameter: a name parameter matches the equal name; an entity is bound by the
  database driver as its JSON text, which is the name of no role.
\<close>

datatype roleParam = RoleName string | RoleObject role

fun sqlEquals :: "string \<Rightarrow> roleParam \<Rightarrow> bool" where
  "sqlEquals n (RoleName s) = (n = s)"
| "sqlEquals n (RoleObject r) = False"

definition isAuthorized :: "authService \<Rightarrow> roleParam list \<Rightarrow> string \<Rightarrow> string \<Rightarrow> bool" where
  "isAuthorized svc userRoles m a =
     (if userRoles = [] then False
      else list_ex (\<lambda>rp. list_ex (sqlEquals (role_name (rp_role rp))) userRoles
                        \<and> p_method (rp_permission rp) = m
                        \<and> p_action (rp_permission rp) = a)
             (rolePermissionRepository svc))"


section \<open>Request pipeline (authenticate, authorize)\<close>

text \<open>
  The parts of a request the two middlewares read. The \<open>Authorization\<close> header is
  missing, or begins with \<open>Bearer \<close> and carries the token that follows the blank, or is
  some other text. \<open>req_host\<close> is the \<open>Host\<close> header. \<open>req_user\<close> is the request context
  that \<open>authenticate\<close> fills with the decoded payload.
\<close>

datatype authorizationHeader = Bearer tokenString | OtherScheme string

record request =
  req_method :: string
  req_originalUrl :: string
  req_host :: "string option"
  req_baseUrl :: string
  req_path :: string
  req_routePath :: "string option"
  req_authorization :: "authorizationHeader option"
  req_user :: "payload option"

definition authenticate ::
  "jwtConfig \<Rightarrow> nat \<Rightarrow> authService \<Rightarrow> request \<Rightarrow> exn + request" where
  "authenticate cfg now svc req =
     (case req_authorization req of
        None \<Rightarrow> Inl (UnauthorizedException NoTokenProvided)
      | Some (OtherScheme h) \<Rightarrow> Inl (UnauthorizedException NoTokenProvided)
      | Some (Bearer t) \<Rightarrow>
          (case validateToken cfg now svc t Access of
             Inl e \<Rightarrow> Inl e
           | Inr decoded \<Rightarrow> Inr (req\<lparr>req_user := Some decoded\<rparr>)))"

text \<open>
  The URL class belongs to the platform, not to the repository. The functions that
  reach it take it as a parameter: \<open>url input base\<close> is the \<open>pathname\<close> of
  \<open>new URL(input, base)\<close>, and \<open>None\<close> when the constructor throws its \<open>TypeError\<close>.
  Everything proved about these functions holds for whatever the platform's class
  answers. \<open>urlBase\<close> is the base the middleware builds, \<open>http://\<close> followed by the
  \<open>Host\<close> header, or by \<open>localhost\<close> when the header is missing or empty.
\<close>

type_synonym urlPathnameOf = "string \<Rightarrow> string \<Rightarrow> string option"

definition urlBase :: "request \<Rightarrow> string" where
  "urlBase req =
     ''http://'' @ (case req_host req of
                      None \<Rightarrow> ''localhost''
                    | Some h \<Rightarrow> if h = [] then ''localhost'' else h)"

definition getFullRoutePath :: "urlPathnameOf \<Rightarrow> request \<Rightarrow> exn + string" where
  "getFullRoutePath url req =
     (if req_originalUrl req \<noteq> [] then
        (case url (req_originalUrl req) (urlBase req) of
           None \<Rightarrow> Inl TypeError
         | Some pathname \<Rightarrow> Inr pathname)
      else
        (let basePath = req_baseUrl req;
             currentPath = req_path req;
             fullPath = basePath @ currentPath;
             fullPath1 = (if startsWith fullPath ''/'' then fullPath else ''/'' @ fullPath)
         in if 1 < length fullPath1 \<and> endsWith fullPath1 ''/'' then Inr (butlast fullPath1)
            else Inr fullPath1))"

definition getPossibleRoutes :: "request \<Rightarrow> string \<Rightarrow> string list" where
  "getPossibleRoutes req normalizedRoute =
     unique (filterBoolean
       ([normalizedRoute]
        @ (if req_path req \<noteq> [] then [stripApiVersion (req_path req)] else [])
        @ (case req_routePath req of
             None \<Rightarrow> []
           | Some rp \<Rightarrow>
               if rp \<noteq> [] \<and> rp \<noteq> req_path req then [stripApiVersion rp] else [])
        @ (if normalizedRoute \<noteq> [] \<and> startsWith normalizedRoute ''/''
           then [drop 1 normalizedRoute] else [])
        @ (if normalizedRoute \<noteq> [] \<and> \<not> startsWith normalizedRoute ''/''
           then [''/'' @ normalizedRoute] else [])))"

definition inferActionFromConvention :: "string \<Rightarrow> string \<Rightarrow> string" where
  "inferActionFromConvention m r =
     (let segments = filterBoolean (js_split CHR ''/'' r);
          resource = (case segments of [] \<Rightarrow> ''unknown'' | s # _ \<Rightarrow> s);
          operation =
            (if m = ''GET'' then
               (if 1 < length segments
                   \<and> (segments ! 1 = ''profile'' \<or> segments ! 1 = ''roles'')
                then segments ! 1
                else if js_includes r CHR '':'' \<or> 1 < length segments then ''detail''
                else ''list'')
             else if m = ''POST'' then
               (if 1 < length segments then segments ! 1 else ''create'')
             else if m = ''PUT'' \<or> m = ''PATCH'' then ''update''
             else if m = ''DELETE'' then ''delete''
             else toLowerCase m)
      in resource @ '':'' @ operation)"

text \<open>The loop of \<open>inferAction\<close> over the candidate routes: the first action the catalog
  returns that is not empty; every lookup goes through the cache of the catalog.\<close>

fun tryRoutes ::
  "permissionService \<Rightarrow> string \<Rightarrow> string list \<Rightarrow> permissionService \<times> string option" where
  "tryRoutes svc m [] = (svc, None)"
| "tryRoutes svc m (r # rs) =
     (case getAction svc m r of
        (svc1, Some dbAction) \<Rightarrow>
          if dbAction \<noteq> [] then (svc1, Some dbAction) else tryRoutes svc1 m rs
      | (svc1, None) \<Rightarrow> tryRoutes svc1 m rs)"

text \<open>\<open>inferAction\<close> derives the route first; an error thrown there leaves the function
  before the catalog is asked.\<close>

definition inferAction ::
  "urlPathnameOf \<Rightarrow> permissionService \<Rightarrow> request \<Rightarrow> permissionService \<times> (exn + string)" where
  "inferAction url svc req =
     (let m = req_method req in
      case getFullRoutePath url req of
        Inl e \<Rightarrow> (svc, Inl e)
      | Inr fullRoute \<Rightarrow>
          (let normalizedRoute = stripApiVersion fullRoute;
               possibleRoutes = getPossibleRoutes req normalizedRoute
           in case tryRoutes svc m possibleRoutes of
                (svc1, Some dbAction) \<Rightarrow> (svc1, Inr dbAction)
              | (svc1, None) \<Rightarrow> (svc1, Inr (inferActionFromConvention m normalizedRoute))))"

text \<open>\<open>req.user?.roles || []\<close>: the roles of the request context, none when no user is
  attached or the payload has no \<open>roles\<close>.\<close>

definition requestRoles :: "request \<Rightarrow> roleParam list" where
  "requestRoles req =
     (case req_user req of
        None \<Rightarrow> []
      | Some u \<Rightarrow> (case jwt_roles u of None \<Rightarrow> [] | Some rs \<Rightarrow> map RoleObject rs))"

text \<open>\<open>authorize\<close> runs in a \<open>try\<close> whose \<open>catch\<close> hands any error to \<open>next\<close>.\<close>

definition authorize ::
  "urlPathnameOf \<Rightarrow> authService \<Rightarrow> permissionService \<Rightarrow> request
     \<Rightarrow> permissionService \<times> (exn + unit)" where
  "authorize url authSvc permSvc req =
     (let userRoles = requestRoles req;
          m = req_method req
      in case inferAction url permSvc req of
           (permSvc1, Inl e) \<Rightarrow> (permSvc1, Inl e)
         | (permSvc1, Inr a) \<Rightarrow>
             if isAuthorized authSvc userRoles m a then (permSvc1, Inr ())
             else (permSvc1, Inl ForbiddenException))"

text \<open>A protected route mounts \<open>authenticate\<close> and then \<open>authorize\<close>; an error of the
  first step ends the request before the second runs.\<close>

definition protectedRoute ::
  "urlPathnameOf \<Rightarrow> jwtConfig \<Rightarrow> nat \<Rightarrow> authService \<Rightarrow> permissionService \<Rightarrow> request
     \<Rightarrow> permissionService \<times> (exn + unit)" where
  "protectedRoute url cfg now authSvc permSvc req =
     (case authenticate cfg now authSvc req of
        Inl e \<Rightarrow> (permSvc, Inl e)
      | Inr req1 \<Rightarrow> authorize url authSvc permSvc req1)"


section \<open>The catalog contract in the words of the specification\<close>

text \<open>
  \<open>segmentwise\<close> compares two arrays of segments of equal length: a pattern segment that
  begins with a colon matches anything, any other must equal the actual segment.
  \<open>spec_matchesRoutePattern\<close> and \<open>spec_resolveAction\<close> follow the wording of the
  specification (both strings split on the slash, nothing dropped, no cache); they are
  compared below with \<open>matchesRoutePattern\<close> and \<open>getAction\<close> of the service.
\<close>

definition segmentwise :: "string list \<Rightarrow> string list \<Rightarrow> bool" where
  "segmentwise actual pattern =
     list_all2 (\<lambda>seg pat. startsWith pat '':'' \<or> seg = pat) actual pattern"

definition spec_matchesRoutePattern :: "string \<Rightarrow> string \<Rightarrow> bool" where
  "spec_matchesRoutePattern path pattern =
     segmentwise (js_split CHR ''/'' path) (js_split CHR ''/'' pattern)"

definition spec_resolveAction :: "permission list \<Rightarrow> string \<Rightarrow> string \<Rightarrow> string option" where
  "spec_resolveAction repo m path =
     (case find (\<lambda>p. p_method p = m \<and> p_route p = path) repo of
        Some p \<Rightarrow> Some (p_action p)
      | None \<Rightarrow>
          map_option p_action
            (find (\<lambda>p. p_method p = m \<and> spec_matchesRoutePattern path (p_route p)) repo))"


section \<open>A concrete deployment\<close>

text \<open>
  The example of the specification: role \<open>ADMIN\<close> is granted the permission
  \<open>(GET, /users, user:list)\<close>, one active principal holds exactly that role, and an
  access token is issued to it at second 1000 with the default lifetimes. The request is
  \<open>GET /api/v1/users\<close> as the router mounted at \<open>/api/v1/users\<close> sees it.
\<close>

definition adminRole :: role where
  "adminRole = \<lparr>role_id = 1, role_name = ''ADMIN''\<rparr>"

definition userListPermission :: permission where
  "userListPermission = \<lparr>p_method = ''GET'', p_route = ''/users'', p_action = ''user:list''\<rparr>"

definition adminUser :: user where
  "adminUser = \<lparr>pid = ''7c9e6679'', email = ''admin@example.com'', isActive = True,
                roles = [adminRole]\<rparr>"

definition scenarioConfig :: jwtConfig where
  "scenarioConfig = \<lparr>secret = ''s3cret'', accessTokenExpiry = 900, refreshTokenExpiry = 604800\<rparr>"

definition scenarioAuth :: authService where
  "scenarioAuth = \<lparr>userRepository = [adminUser],
     rolePermissionRepository = [\<lparr>rp_role = adminRole, rp_permission = userListPermission\<rparr>],
     tokenBlacklistRepository = []\<rparr>"

definition scenarioCatalog :: permissionService where
  "scenarioCatalog = \<lparr>permissionRepo = [userListPermission], cache = Map.empty\<rparr>"

definition scenarioToken :: tokenString where
  "scenarioToken = generateAccessToken scenarioConfig 1000 adminUser"

definition scenarioClaims :: payload where
  "scenarioClaims = \<lparr>jwt_sub = Some ''7c9e6679'', jwt_type = Some ''access'',
     jwt_email = Some ''admin@example.com'', jwt_roles = Some [adminRole],
     jwt_iat = Some 1000, jwt_exp = Some 1900\<rparr>"

definition scenarioRefreshToken :: tokenString where
  "scenarioRefreshToken = generateRefreshToken scenarioConfig 1000 adminUser"

definition scenarioRefreshClaims :: payload where
  "scenarioRefreshClaims = \<lparr>jwt_sub = Some ''7c9e6679'', jwt_type = Some ''refresh'',
     jwt_email = None, jwt_roles = None, jwt_iat = Some 1000, jwt_exp = Some 605800\<rparr>"

definition scenarioRequest :: request where
  "scenarioRequest = \<lparr>req_method = ''GET'', req_originalUrl = ''/api/v1/users'',
     req_host = Some ''localhost'', req_baseUrl = ''/api/v1/users'', req_path = ''/'',
     req_routePath = Some ''/'', req_authorization = Some (Bearer scenarioToken),
     req_user = None\<rparr>"

text \<open>
  What the URL class of the platform answers at the two inputs the examples reach:
  \<open>new URL('/api/v1/users', 'http://localhost').pathname\<close> is \<open>/api/v1/users\<close>, and
  \<open>new URL('/api/v1/users', 'http://localhost:99999')\<close> throws, the port being out of
  range. \<open>exampleUrl\<close> looks an input up in this table; the examples call it at these
  two inputs only, and its value anywhere else plays no part.
\<close>

definition knownUrlAnswers :: "((string \<times> string) \<times> string option) list" where
  "knownUrlAnswers =
     [((''/api/v1/users'', ''http://localhost''), Some ''/api/v1/users''),
      ((''/api/v1/users'', ''http://localhost:99999''), None)]"

definition exampleUrl :: urlPathnameOf where
  "exampleUrl input base =
     (case map_of knownUrlAnswers (input, base) of None \<Rightarrow> None | Some answer \<Rightarrow> answer)"

text \<open>The request of the deployment with a \<open>Host\<close> header whose port is out of range.\<close>

definition badHostRequest :: request where
  "badHostRequest = scenarioRequest\<lparr>req_host := Some ''localhost:99999''\<rparr>"

text \<open>The same deployment after the principal lost its role, and after it was
  deactivated.\<close>

definition scenarioAuthNoRoles :: authService where
  "scenarioAuthNoRoles = scenarioAuth\<lparr>userRepository := [adminUser\<lparr>roles := []\<rparr>]\<rparr>"

definition scenarioAuthInactive :: authService where
  "scenarioAuthInactive = scenarioAuth\<lparr>userRepository := [adminUser\<lparr>isActive := False\<rparr>]\<rparr>"


text \<open>A second principal, stored before the first; the deployment with both; both with
  the administrator's roles emptied; the deployment with the administrator deactivated
  and without roles; the deployment without any principal.\<close>

definition otherUser :: user where
  "otherUser = \<lparr>pid = ''0b1d52f4'', email = ''other@example.com'', isActive = True,
                roles = []\<rparr>"

definition scenarioAuthTwo :: authService where
  "scenarioAuthTwo = scenarioAuth\<lparr>userRepository := [otherUser, adminUser]\<rparr>"

definition scenarioAuthTwoNoRoles :: authService where
  "scenarioAuthTwoNoRoles =
     scenarioAuth\<lparr>userRepository := [otherUser, adminUser\<lparr>roles := []\<rparr>]\<rparr>"

definition scenarioAuthInactiveNoRoles :: authService where
  "scenarioAuthInactiveNoRoles =
     scenarioAuth\<lparr>userRepository := [adminUser\<lparr>isActive := False, roles := []\<rparr>]\<rparr>"

definition scenarioAuthNobody :: authService where
  "scenarioAuthNobody = scenarioAuth\<lparr>userRepository := []\<rparr>"






text \<open>Further fixtures: the access token revoked; a token of another signer that expired
  long ago; a second pattern of the catalog; a catalog whose cache holds the miss of
  \<open>GET /users/42\<close> and the same catalog after \<open>(GET, /users/:id, user:detail)\<close> was
  created; a catalog that \<open>findOrCreatePermission\<close> (which checks no format) filled with
  the action \<open>UserList\<close>.\<close>

definition scenarioAuthRevoked :: authService where
  "scenarioAuthRevoked =
     saveBlacklist scenarioAuth (blacklistEntry scenarioToken scenarioClaims None)"

definition expiredForeignClaims :: payload where
  "expiredForeignClaims = \<lparr>jwt_sub = Some ''7c9e6679'', jwt_type = Some ''access'',
     jwt_email = None, jwt_roles = None, jwt_iat = Some 1, jwt_exp = Some 5\<rparr>"

definition expiredForeignToken :: tokenString where
  "expiredForeignToken = Jwt expiredForeignClaims ''another-key''"

definition roleGrantsPermission :: permission where
  "roleGrantsPermission = \<lparr>p_method = ''GET'',
     p_route = ''/role-permissions/:roleId/permissions'', p_action = ''rolepermission:list''\<rparr>"

definition userDetailPermission :: permission where
  "userDetailPermission =
     \<lparr>p_method = ''GET'', p_route = ''/users/:id'', p_action = ''user:detail''\<rparr>"

definition staleCatalog :: permissionService where
  "staleCatalog =
     fst (getAction \<lparr>permissionRepo = [], cache = Map.empty\<rparr> ''GET'' ''/users/42'')"

definition staleCatalogAfterCreate :: permissionService where
  "staleCatalogAfterCreate =
     fst (createPermission staleCatalog ''GET'' ''/users/:id'' ''user:detail'')"

definition legacyCatalog :: permissionService where
  "legacyCatalog =
     fst (findOrCreatePermission \<lparr>permissionRepo = [], cache = Map.empty\<rparr>
            ''GET'' ''/users'' ''UserList'')"


section \<open>Facts about the helpers\<close>

lemmas scenario_defs = adminRole_def userListPermission_def adminUser_def scenarioConfig_def
  scenarioAuth_def scenarioCatalog_def scenarioToken_def scenarioClaims_def
  scenarioRefreshToken_def scenarioRefreshClaims_def scenarioRequest_def
  scenarioAuthNoRoles_def scenarioAuthInactive_def

lemmas token_defs = generateAccessToken_def generateRefreshToken_def jwt_sign_def jwt_verify_def
  jwt_decode_def validateToken_def isTokenBlacklisted_def findUserByPid_def areArraysEqual_def

lemmas route_defs = inferAction_def getFullRoutePath_def urlBase_def exampleUrl_def
  knownUrlAnswers_def stripApiVersion_def
  startsWith_def isDigit_def getPossibleRoutes_def unique_def filterBoolean_def getAction_def
  cacheKey_def findPermissionByPattern_def matchesRoutePattern_def Let_def

lemma js_split_nonempty: "js_split c s \<noteq> []"
  by (induction s) (auto split: list.splits)

lemma length_js_split: "length (js_split c s) = Suc (count_list s c)"
  by (induction s) (auto split: list.splits simp: js_split_nonempty)

lemma invalidActionFormat_count: "invalidActionFormat a = (count_list a CHR '':'' \<noteq> 1)"
  by (auto simp: invalidActionFormat_def js_includes_def length_js_split count_list_0_iff)

lemma find_filter: "find P (filter Q xs) = find (\<lambda>x. Q x \<and> P x) xs"
  by (induction xs) auto

lemma segmentsMatch_segmentwise:
  "length as = length ps \<Longrightarrow> segmentsMatch as ps = segmentwise as ps"
  unfolding segmentwise_def
  by (induction as ps rule: segmentsMatch.induct) auto

lemma segmentwise_refl: "segmentwise xs xs"
  unfolding segmentwise_def by (simp add: list_all2_same)

text \<open>The shortcut for equal strings adds nothing: \<open>matchesRoutePattern\<close> is the
  segment-wise comparison of the non-empty pieces.\<close>

lemma matchesRoutePattern_segmentwise:
  "matchesRoutePattern a p =
     segmentwise (filterBoolean (js_split CHR ''/'' a)) (filterBoolean (js_split CHR ''/'' p))"
proof (cases "a = p")
  case True
  then show ?thesis by (simp add: matchesRoutePattern_def segmentwise_refl)
next
  case False
  let ?as = "filterBoolean (js_split CHR ''/'' a)"
  let ?ps = "filterBoolean (js_split CHR ''/'' p)"
  show ?thesis
  proof (cases "length ?as = length ?ps")
    case True
    with False show ?thesis
      by (simp add: matchesRoutePattern_def Let_def segmentsMatch_segmentwise)
  next
    case neq: False
    then have "\<not> segmentwise ?as ?ps"
      unfolding segmentwise_def by (auto dest: list_all2_lengthD)
    with False neq show ?thesis
      by (simp add: matchesRoutePattern_def Let_def)
  qed
qed

text \<open>On arrays without repetition \<open>areArraysEqual\<close> is equality of the sets.\<close>

lemma areArraysEqual_set:
  assumes "distinct arr1" "distinct arr2"
  shows "areArraysEqual arr1 arr2 = (set arr1 = set arr2)"
proof
  assume "areArraysEqual arr1 arr2"
  then have len: "length arr1 = length arr2" and sub: "set arr1 \<subseteq> set arr2"
    by (auto simp: areArraysEqual_def list_all_iff split: if_splits)
  from len assms have "card (set arr1) = card (set arr2)" by (simp add: distinct_card)
  with sub show "set arr1 = set arr2" by (simp add: card_subset_eq)
next
  assume eq: "set arr1 = set arr2"
  then have "length arr1 = length arr2" using assms by (metis distinct_card)
  with eq show "areArraysEqual arr1 arr2" by (simp add: areArraysEqual_def list_all_iff)
qed

lemma areArraysEqual_refl: "areArraysEqual xs xs"
  by (simp add: areArraysEqual_def list_all_iff)

lemma scenarioToken_verifies:
  "jwt_verify scenarioToken (secret scenarioConfig) 1001 = Some scenarioClaims"
  by (simp add: scenario_defs token_defs)

lemma scenarioRefreshToken_verifies:
  "jwt_verify scenarioRefreshToken (secret scenarioConfig) 1001 = Some scenarioRefreshClaims"
  by (simp add: scenario_defs token_defs)

text \<open>The lookup by external id in a table whose ids do not repeat.\<close>

lemma find_stored_pid:
  "distinct (map pid us) \<Longrightarrow> u \<in> set us \<Longrightarrow> find (\<lambda>x. pid x = pid u) us = Some u"
  by (induction us) (auto simp: image_iff)

lemma find_absent_pid: "s \<notin> set (map pid us) \<Longrightarrow> find (\<lambda>x. pid x = s) us = None"
  by (auto simp: find_None_iff)

lemma areArraysEqual_subset:
  "areArraysEqual (map f xs) (map f ys)
     = (length xs = length ys \<and> set (map f xs) \<subseteq> set (map f ys))"
  by (auto simp: areArraysEqual_def list_all_iff)

lemma staleCatalog_eval:
  "staleCatalog = \<lparr>permissionRepo = [], cache = [''GET:/users/42'' \<mapsto> '''']\<rparr>"
  by (simp add: staleCatalog_def getAction_def cacheKey_def findPermissionByPattern_def)

lemma staleCatalog_create:
  "createPermission staleCatalog ''GET'' ''/users/:id'' ''user:detail''
    = (\<lparr>permissionRepo = [userDetailPermission], cache = [''GET:/users/42'' \<mapsto> '''']\<rparr>,
       Inr userDetailPermission)"
  by (simp add: staleCatalog_eval createPermission_def invalidActionFormat_def js_includes_def
      cacheKey_def userDetailPermission_def Let_def)


section \<open>The end-to-end example\<close>

text \<open>
  Claim C1. With \<open>(GET, /users, user:list)\<close> registered and granted to \<open>ADMIN\<close>, the
  request \<open>GET /api/v1/users\<close> of an active principal whose only role is \<open>ADMIN\<close> should
  pass both steps, and after the principal's roles are emptied the same unexpired token
  should fail with Unauthorized at the first step.

  Evaluated on the code: \<open>authenticate\<close> accepts the token; the resolver strips the
  prefix and resolves \<open>user:list\<close>; \<open>isAuthorized\<close> called with the role name allows; but
  \<open>authorize\<close> hands \<open>isAuthorized\<close> the role entities of the token where it expects
  names, no entity equals a name, and the request ends Forbidden. The second half
  holds: with the roles emptied the request ends Unauthorized, roles changed.
\<close>

theorem scenario_pipeline:
  "isl (authenticate scenarioConfig 1001 scenarioAuth scenarioRequest) = False
   \<and> snd (inferAction exampleUrl scenarioCatalog scenarioRequest) = Inr ''user:list''
   \<and> isAuthorized scenarioAuth [RoleName ''ADMIN''] ''GET'' ''user:list'' = True
   \<and> snd (protectedRoute exampleUrl scenarioConfig 1001 scenarioAuth scenarioCatalog
            scenarioRequest)
       = Inl ForbiddenException
   \<and> snd (protectedRoute exampleUrl scenarioConfig 1001 scenarioAuthNoRoles scenarioCatalog
            scenarioRequest)
       = Inl (UnauthorizedException (InvalidToken RolesChanged))"
proof (intro conjI)
  show "isl (authenticate scenarioConfig 1001 scenarioAuth scenarioRequest) = False"
    by (simp add: scenario_defs token_defs authenticate_def)
  show "snd (inferAction exampleUrl scenarioCatalog scenarioRequest) = Inr ''user:list''"
    by (simp add: scenario_defs route_defs)
  show "isAuthorized scenarioAuth [RoleName ''ADMIN''] ''GET'' ''user:list'' = True"
    by (simp add: scenario_defs isAuthorized_def)
  show "snd (protectedRoute exampleUrl scenarioConfig 1001 scenarioAuth scenarioCatalog
            scenarioRequest)
       = Inl ForbiddenException"
    by (simp add: scenario_defs token_defs protectedRoute_def authenticate_def authorize_def
        requestRoles_def isAuthorized_def route_defs)
  show "snd (protectedRoute exampleUrl scenarioConfig 1001 scenarioAuthNoRoles scenarioCatalog
            scenarioRequest)
       = Inl (UnauthorizedException (InvalidToken RolesChanged))"
    by (simp add: scenario_defs token_defs protectedRoute_def authenticate_def)
qed


section \<open>Access tokens are bound to the current roles\<close>

text \<open>
  Claim C2, as the code has it. For an access token that passes the revocation lookup,
  the signature and expiry check and the type check, verification fetches again the
  stored principal whose external id, unique in the store, is the subject of the token.
  When no principal with that id is stored, or the one stored is not active,
  verification fails with Unauthorized as user missing or inactive, whatever the roles
  are. For an active principal it succeeds exactly when the token carries as many
  roles as the principal has now and every current role name occurs among the names
  in the token, and fails with Unauthorized as roles changed otherwise. Where neither
  list repeats a name (an assignment is unique per principal and role, a role name is
  unique), that is: it succeeds exactly when the two sets of role names are equal.
\<close>

theorem validateToken_binds_roles:
  assumes "\<not> isTokenBlacklisted svc t"
    and "jwt_verify t (secret cfg) now = Some decoded"
    and "jwt_type decoded = Some ''access''"
    and "jwt_sub decoded = Some s"
    and "jwt_roles decoded = Some decodedRoles"
    and "distinct (map pid (userRepository svc))"
  shows "(s \<notin> set (map pid (userRepository svc)) \<longrightarrow>
           validateToken cfg now svc t Access
             = Inl (UnauthorizedException (InvalidToken UserMissingOrInactive)))
       \<and> (u \<in> set (userRepository svc) \<and> pid u = s \<and> \<not> isActive u \<longrightarrow>
           validateToken cfg now svc t Access
             = Inl (UnauthorizedException (InvalidToken UserMissingOrInactive)))
       \<and> (u \<in> set (userRepository svc) \<and> pid u = s \<and> isActive u \<longrightarrow>
           validateToken cfg now svc t Access =
             (if length (roles u) = length decodedRoles
                 \<and> set (map role_name (roles u)) \<subseteq> set (map role_name decodedRoles)
              then Inr decoded
              else Inl (UnauthorizedException (InvalidToken RolesChanged))))
       \<and> (u \<in> set (userRepository svc) \<and> pid u = s \<and> isActive u
            \<and> distinct (map role_name (roles u)) \<and> distinct (map role_name decodedRoles) \<longrightarrow>
           validateToken cfg now svc t Access =
             (if set (map role_name decodedRoles) = set (map role_name (roles u)) then Inr decoded
              else Inl (UnauthorizedException (InvalidToken RolesChanged))))"
proof (intro conjI impI)
  assume "s \<notin> set (map pid (userRepository svc))"
  then have "findUserByPid svc (Some s) = None"
    by (simp add: findUserByPid_def find_absent_pid)
  with assms show "validateToken cfg now svc t Access
      = Inl (UnauthorizedException (InvalidToken UserMissingOrInactive))"
    by (simp add: validateToken_def)
next
  assume "u \<in> set (userRepository svc) \<and> pid u = s \<and> \<not> isActive u"
  with assms(6) have "findUserByPid svc (Some s) = Some u" "\<not> isActive u"
    by (auto simp: findUserByPid_def find_stored_pid)
  with assms show "validateToken cfg now svc t Access
      = Inl (UnauthorizedException (InvalidToken UserMissingOrInactive))"
    by (simp add: validateToken_def)
next
  assume "u \<in> set (userRepository svc) \<and> pid u = s \<and> isActive u"
  with assms(6) have "findUserByPid svc (Some s) = Some u" "isActive u"
    by (auto simp: findUserByPid_def find_stored_pid)
  with assms show "validateToken cfg now svc t Access =
             (if length (roles u) = length decodedRoles
                 \<and> set (map role_name (roles u)) \<subseteq> set (map role_name decodedRoles)
              then Inr decoded
              else Inl (UnauthorizedException (InvalidToken RolesChanged)))"
    by (simp add: validateToken_def areArraysEqual_subset)
next
  assume a: "u \<in> set (userRepository svc) \<and> pid u = s \<and> isActive u
            \<and> distinct (map role_name (roles u)) \<and> distinct (map role_name decodedRoles)"
  with assms(6) have "findUserByPid svc (Some s) = Some u" "isActive u"
    by (auto simp: findUserByPid_def find_stored_pid)
  with assms a
    areArraysEqual_set[of "map role_name (roles u)" "map role_name decodedRoles"]
  show "validateToken cfg now svc t Access =
             (if set (map role_name decodedRoles) = set (map role_name (roles u)) then Inr decoded
              else Inl (UnauthorizedException (InvalidToken RolesChanged)))"
    by (auto simp: validateToken_def)
qed

text \<open>Two principals are stored and the subject of the token is the second: the token is
  accepted while that principal has the role it was issued with, and refused as roles
  changed once the role is gone.\<close>

theorem validateToken_binds_roles_witness:
  "validateToken scenarioConfig 1001 scenarioAuthTwo scenarioToken Access = Inr scenarioClaims
   \<and> validateToken scenarioConfig 1001 scenarioAuthTwoNoRoles scenarioToken Access
       = Inl (UnauthorizedException (InvalidToken RolesChanged))"
proof
  have a: "\<not> isTokenBlacklisted scenarioAuthTwo scenarioToken"
    by (simp add: scenarioAuthTwo_def scenario_defs isTokenBlacklisted_def)
  have b: "jwt_type scenarioClaims = Some ''access''"
    and c: "jwt_sub scenarioClaims = Some ''7c9e6679''"
    and d: "jwt_roles scenarioClaims = Some [adminRole]"
    by (simp_all add: scenario_defs)
  have e: "distinct (map pid (userRepository scenarioAuthTwo))"
    by (simp add: scenarioAuthTwo_def otherUser_def scenario_defs)
  have f: "adminUser \<in> set (userRepository scenarioAuthTwo) \<and> pid adminUser = ''7c9e6679''
      \<and> isActive adminUser \<and> distinct (map role_name (roles adminUser))
      \<and> distinct (map role_name [adminRole])"
    by (simp add: scenarioAuthTwo_def scenario_defs)
  from validateToken_binds_roles[OF a scenarioToken_verifies b c d e, of adminUser] f
  show "validateToken scenarioConfig 1001 scenarioAuthTwo scenarioToken Access = Inr scenarioClaims"
    by (simp add: scenario_defs)
next
  let ?u = "adminUser\<lparr>roles := []\<rparr>"
  have a: "\<not> isTokenBlacklisted scenarioAuthTwoNoRoles scenarioToken"
    by (simp add: scenarioAuthTwoNoRoles_def scenario_defs isTokenBlacklisted_def)
  have b: "jwt_type scenarioClaims = Some ''access''"
    and c: "jwt_sub scenarioClaims = Some ''7c9e6679''"
    and d: "jwt_roles scenarioClaims = Some [adminRole]"
    by (simp_all add: scenario_defs)
  have e: "distinct (map pid (userRepository scenarioAuthTwoNoRoles))"
    by (simp add: scenarioAuthTwoNoRoles_def otherUser_def scenario_defs)
  have f: "?u \<in> set (userRepository scenarioAuthTwoNoRoles) \<and> pid ?u = ''7c9e6679''
      \<and> isActive ?u \<and> distinct (map role_name (roles ?u))
      \<and> distinct (map role_name [adminRole])"
    by (simp add: scenarioAuthTwoNoRoles_def scenario_defs)
  from validateToken_binds_roles[OF a scenarioToken_verifies b c d e, of ?u] f
  show "validateToken scenarioConfig 1001 scenarioAuthTwoNoRoles scenarioToken Access
       = Inl (UnauthorizedException (InvalidToken RolesChanged))"
    by (simp add: scenario_defs)
qed

text \<open>The principal of the token was deactivated and lost its role: the sets of role
  names differ, and the token is refused as user missing or inactive, not as roles
  changed.\<close>

theorem validateToken_binds_roles_counterexample:
  "map role_name (roles (adminUser\<lparr>isActive := False, roles := []\<rparr>)) = []
   \<and> jwt_roles scenarioClaims = Some [adminRole]
   \<and> jwt_verify scenarioToken (secret scenarioConfig) 1001 = Some scenarioClaims
   \<and> validateToken scenarioConfig 1001 scenarioAuthInactiveNoRoles scenarioToken Access
       = Inl (UnauthorizedException (InvalidToken UserMissingOrInactive))"
  by (simp add: scenarioAuthInactiveNoRoles_def scenario_defs token_defs)


section \<open>Resolving an action\<close>

text \<open>
  Claim C3, as the code has it. When the cache holds nothing under \<open>method:path\<close>,
  \<open>getAction\<close> returns the action of the first stored row with that method and exactly
  that route when there is one, and otherwise the action of the first stored row with
  that method whose pattern matches segment-wise, where the segments of pattern and
  path are the pieces between slashes that are not empty: the counts must agree and
  each pattern segment begins with a colon or equals the segment of the path. When the
  cache holds an entry under the key, that entry is the answer (nothing for a recorded
  miss). The pattern \<open>/role-permissions/:roleId/permissions\<close> matches
  \<open>/role-permissions/42/permissions\<close> and not \<open>/role-permissions/42/other\<close>.
\<close>

theorem getAction_resolves:
  "(cache svc (cacheKey m r) = None \<longrightarrow>
      snd (getAction svc m r) =
        (case find (\<lambda>p. p_method p = m \<and> p_route p = r) (permissionRepo svc) of
           Some p \<Rightarrow> Some (p_action p)
         | None \<Rightarrow>
             map_option p_action
               (find (\<lambda>p. p_method p = m \<and>
                          segmentwise (filterBoolean (js_split CHR ''/'' r))
                            (filterBoolean (js_split CHR ''/'' (p_route p))))
                  (permissionRepo svc))))
   \<and> (cache svc (cacheKey m r) = Some c \<longrightarrow>
        snd (getAction svc m r) = (if c = [] then None else Some c))
   \<and> matchesRoutePattern ''/role-permissions/42/permissions''
        ''/role-permissions/:roleId/permissions''
   \<and> \<not> matchesRoutePattern ''/role-permissions/42/other''
        ''/role-permissions/:roleId/permissions''"
proof (intro conjI impI)
  assume "cache svc (cacheKey m r) = None"
  then show "snd (getAction svc m r) =
        (case find (\<lambda>p. p_method p = m \<and> p_route p = r) (permissionRepo svc) of
           Some p \<Rightarrow> Some (p_action p)
         | None \<Rightarrow>
             map_option p_action
               (find (\<lambda>p. p_method p = m \<and>
                          segmentwise (filterBoolean (js_split CHR ''/'' r))
                            (filterBoolean (js_split CHR ''/'' (p_route p))))
                  (permissionRepo svc)))"
    by (simp add: getAction_def Let_def findPermissionByPattern_def find_filter
        matchesRoutePattern_segmentwise split: option.splits)
next
  assume "cache svc (cacheKey m r) = Some c"
  then show "snd (getAction svc m r) = (if c = [] then None else Some c)"
    by (simp add: getAction_def Let_def)
next
  show "matchesRoutePattern ''/role-permissions/42/permissions''
        ''/role-permissions/:roleId/permissions''"
    by (simp add: matchesRoutePattern_def filterBoolean_def startsWith_def)
next
  show "\<not> matchesRoutePattern ''/role-permissions/42/other''
        ''/role-permissions/:roleId/permissions''"
    by (simp add: matchesRoutePattern_def filterBoolean_def startsWith_def)
qed

text \<open>A lookup through the pattern on an empty cache, and a lookup answered by a
  recorded miss although the row is stored.\<close>

theorem getAction_resolves_witness:
  "snd (getAction \<lparr>permissionRepo = [userListPermission, roleGrantsPermission],
                   cache = Map.empty\<rparr>
          ''GET'' ''/role-permissions/42/permissions'') = Some ''rolepermission:list''
   \<and> snd (getAction \<lparr>permissionRepo = [userListPermission, roleGrantsPermission],
                     cache = [''GET:/users'' \<mapsto> '''']\<rparr> ''GET'' ''/users'') = None"
  using getAction_resolves[of "\<lparr>permissionRepo = [userListPermission, roleGrantsPermission],
        cache = Map.empty\<rparr>" "''GET''" "''/role-permissions/42/permissions''" "''x''"]
    getAction_resolves[of "\<lparr>permissionRepo = [userListPermission, roleGrantsPermission],
        cache = [''GET:/users'' \<mapsto> '''']\<rparr>" "''GET''" "''/users''" "''''"]
  by (simp add: cacheKey_def userListPermission_def roleGrantsPermission_def segmentwise_def
      filterBoolean_def startsWith_def)

text \<open>The claim as worded splits both strings on the slash and keeps every piece. On
  the path \<open>/users/\<close> that reading finds no match for the stored pattern \<open>/users\<close> (three
  pieces against two), while the service drops the empty pieces and resolves
  \<open>user:list\<close>.\<close>

theorem getAction_resolves_counterexample:
  "snd (getAction \<lparr>permissionRepo = [userListPermission], cache = Map.empty\<rparr>
          ''GET'' ''/users/'') = Some ''user:list''
   \<and> spec_resolveAction [userListPermission] ''GET'' ''/users/'' = None"
  by (simp add: userListPermission_def getAction_def cacheKey_def findPermissionByPattern_def
      matchesRoutePattern_def filterBoolean_def startsWith_def spec_resolveAction_def
      spec_matchesRoutePattern_def segmentwise_def)


section \<open>What creating a permission does to the cache\<close>

text \<open>
  Claim C4, as the code has it. After \<open>createPermission\<close> stored a new row for method
  \<open>m\<close> and route \<open>r\<close>, the cache has lost the entry under the key \<open>m:r\<close> and nothing
  else: every other entry, of this method or another, is what it was. The next
  \<open>getAction\<close> for \<open>(m, r)\<close> is therefore computed from the updated table.
\<close>

theorem createPermission_invalidates_key:
  assumes "createPermission svc m r a = (svc1, Inr p)"
  shows "cache svc1 = (cache svc)(cacheKey m r := None)
       \<and> permissionRepo svc1 = permissionRepo svc @ [p]
       \<and> snd (getAction svc1 m r) = snd (getAction (svc1\<lparr>cache := Map.empty\<rparr>) m r)"
proof -
  from assms have svc1: "svc1 = svc\<lparr>permissionRepo := permissionRepo svc @ [p],
                      cache := (cache svc)(cacheKey m r := None)\<rparr>"
    by (auto simp: createPermission_def Let_def split: option.splits if_splits)
  then have miss: "cache svc1 (cacheKey m r) = None" by simp
  from svc1 miss show ?thesis
    by (simp add: getAction_def Let_def split: option.splits)
qed

theorem createPermission_invalidates_key_witness:
  "cache staleCatalogAfterCreate ''GET:/users/:id'' = None
   \<and> permissionRepo staleCatalogAfterCreate = [userDetailPermission]
   \<and> snd (getAction staleCatalogAfterCreate ''GET'' ''/users/:id'') = Some ''user:detail''"
  using createPermission_invalidates_key[OF staleCatalog_create]
  by (simp add: staleCatalogAfterCreate_def staleCatalog_create getAction_def cacheKey_def
      userDetailPermission_def)

text \<open>The miss of \<open>GET /users/42\<close> was cached before \<open>(GET, /users/:id, user:detail)\<close> was
  created. Creating the row leaves that entry in place, so the lookup keeps answering
  with the miss, although the updated table resolves the path.\<close>

theorem createPermission_invalidates_key_counterexample:
  "snd (createPermission staleCatalog ''GET'' ''/users/:id'' ''user:detail'')
     = Inr userDetailPermission
   \<and> cache staleCatalogAfterCreate ''GET:/users/42'' = Some ''''
   \<and> snd (getAction staleCatalogAfterCreate ''GET'' ''/users/42'') = None
   \<and> snd (getAction (staleCatalogAfterCreate\<lparr>cache := Map.empty\<rparr>) ''GET'' ''/users/42'')
       = Some ''user:detail''"
  by (simp add: staleCatalogAfterCreate_def staleCatalog_create getAction_def cacheKey_def
      userDetailPermission_def findPermissionByPattern_def matchesRoutePattern_def
      filterBoolean_def startsWith_def)


section \<open>Revocation is looked up first\<close>

text \<open>
  Claim C5. Every verification looks the token up in the revoked set before it checks
  signature and expiry: a token in the set is refused as invalidated whatever its
  signature, expiry or type. A token becomes a member by the row saved for it, and
  saving a row for one token changes the verification of no other token, so a
  different token of the same subject that verified before still verifies.
\<close>

theorem blacklist_lookup_first:
  "(isTokenBlacklisted svc t \<longrightarrow>
      validateToken cfg now svc t ty = Inl (UnauthorizedException (InvalidToken TokenInvalidated)))
   \<and> (bl_token b = t \<longrightarrow> isTokenBlacklisted (saveBlacklist svc b) t)
   \<and> (bl_token b \<noteq> t' \<longrightarrow>
        validateToken cfg now (saveBlacklist svc b) t' ty = validateToken cfg now svc t' ty)"
proof (intro conjI impI)
  assume "isTokenBlacklisted svc t"
  then show "validateToken cfg now svc t ty
      = Inl (UnauthorizedException (InvalidToken TokenInvalidated))"
    by (simp add: validateToken_def)
next
  assume "bl_token b = t"
  then show "isTokenBlacklisted (saveBlacklist svc b) t"
    by (auto simp: isTokenBlacklisted_def saveBlacklist_def find_None_iff)
next
  assume ne: "bl_token b \<noteq> t'"
  then have bl: "isTokenBlacklisted (saveBlacklist svc b) t' = isTokenBlacklisted svc t'"
    by (auto simp: isTokenBlacklisted_def saveBlacklist_def find_None_iff)
  have fu: "\<And>s. findUserByPid (saveBlacklist svc b) s = findUserByPid svc s"
    by (simp add: findUserByPid_def saveBlacklist_def split: option.splits list.splits)
  show "validateToken cfg now (saveBlacklist svc b) t' ty = validateToken cfg now svc t' ty"
    unfolding validateToken_def bl fu by (rule refl)
qed

text \<open>The access token of the deployment, correctly signed and unexpired at second
  1001, is refused once revoked, while the access token issued to the same principal
  one second later is accepted.\<close>

theorem blacklist_lookup_first_witness:
  "jwt_verify scenarioToken (secret scenarioConfig) 1001 = Some scenarioClaims
   \<and> validateToken scenarioConfig 1001 scenarioAuthRevoked scenarioToken Access
       = Inl (UnauthorizedException (InvalidToken TokenInvalidated))
   \<and> validateToken scenarioConfig 1001 scenarioAuthRevoked
        (generateAccessToken scenarioConfig 1001 adminUser) Access
       = Inr (scenarioClaims\<lparr>jwt_iat := Some 1001, jwt_exp := Some 1901\<rparr>)"
proof (intro conjI)
  show "jwt_verify scenarioToken (secret scenarioConfig) 1001 = Some scenarioClaims"
    by (rule scenarioToken_verifies)
  have tok: "bl_token (blacklistEntry scenarioToken scenarioClaims None) = scenarioToken"
    by (simp add: blacklistEntry_def)
  from blacklist_lookup_first[of scenarioAuth scenarioToken scenarioConfig 1001 Access
      "blacklistEntry scenarioToken scenarioClaims None" scenarioToken] tok
  have "isTokenBlacklisted scenarioAuthRevoked scenarioToken"
    by (simp add: scenarioAuthRevoked_def)
  with blacklist_lookup_first[of scenarioAuthRevoked scenarioToken scenarioConfig 1001 Access]
  show "validateToken scenarioConfig 1001 scenarioAuthRevoked scenarioToken Access
       = Inl (UnauthorizedException (InvalidToken TokenInvalidated))"
    by simp
  have ne: "bl_token (blacklistEntry scenarioToken scenarioClaims None)
      \<noteq> generateAccessToken scenarioConfig 1001 adminUser"
    by (simp add: blacklistEntry_def scenario_defs token_defs)
  from blacklist_lookup_first[of scenarioAuth scenarioToken scenarioConfig 1001 Access
      "blacklistEntry scenarioToken scenarioClaims None"
      "generateAccessToken scenarioConfig 1001 adminUser"] ne
  show "validateToken scenarioConfig 1001 scenarioAuthRevoked
        (generateAccessToken scenarioConfig 1001 adminUser) Access
       = Inr (scenarioClaims\<lparr>jwt_iat := Some 1001, jwt_exp := Some 1901\<rparr>)"
    by (simp add: scenarioAuthRevoked_def) (simp add: scenario_defs token_defs)
qed


section \<open>Issuing and verifying\<close>

text \<open>
  Claim C6, as the code has it. An access token verified at the moment it is issued is
  accepted, with the principal's external id as subject and the type \<open>access\<close>, when
  the principal is stored under that id and active, the configured lifetime is
  positive and the token is not in the revoked set. A refresh token verified at the
  moment it is issued is accepted, with the same subject and the type \<open>refresh\<close>, when
  the lifetime is positive and the token is not in the revoked set; the principal is
  not consulted. Every token whose type field is \<open>refresh\<close> is refused as an access
  token with Unauthorized.
\<close>

theorem issue_verify_roundtrip:
  "(findUserByPid svc (Some (pid u)) = Some u \<and> isActive u \<and> 0 < accessTokenExpiry cfg
       \<and> \<not> isTokenBlacklisted svc (generateAccessToken cfg now u) \<longrightarrow>
      (\<exists>d. validateToken cfg now svc (generateAccessToken cfg now u) Access = Inr d
           \<and> jwt_sub d = Some (pid u) \<and> jwt_type d = Some ''access''))
   \<and> (0 < refreshTokenExpiry cfg \<and> \<not> isTokenBlacklisted svc (generateRefreshToken cfg now u) \<longrightarrow>
      (\<exists>d. validateToken cfg now svc (generateRefreshToken cfg now u) Refresh = Inr d
           \<and> jwt_sub d = Some (pid u) \<and> jwt_type d = Some ''refresh''))
   \<and> (jwt_type p = Some ''refresh'' \<longrightarrow>
      (\<exists>c. validateToken cfg now svc (Jwt p k) Access
            = Inl (UnauthorizedException (InvalidToken c))))"
proof (intro conjI impI)
  assume "findUserByPid svc (Some (pid u)) = Some u \<and> isActive u \<and> 0 < accessTokenExpiry cfg
       \<and> \<not> isTokenBlacklisted svc (generateAccessToken cfg now u)"
  then show "\<exists>d. validateToken cfg now svc (generateAccessToken cfg now u) Access = Inr d
           \<and> jwt_sub d = Some (pid u) \<and> jwt_type d = Some ''access''"
    by (simp add: validateToken_def generateAccessToken_def jwt_sign_def jwt_verify_def
        areArraysEqual_refl)
next
  assume "0 < refreshTokenExpiry cfg \<and> \<not> isTokenBlacklisted svc (generateRefreshToken cfg now u)"
  then show "\<exists>d. validateToken cfg now svc (generateRefreshToken cfg now u) Refresh = Inr d
           \<and> jwt_sub d = Some (pid u) \<and> jwt_type d = Some ''refresh''"
    by (simp add: validateToken_def generateRefreshToken_def jwt_sign_def jwt_verify_def)
next
  assume "jwt_type p = Some ''refresh''"
  then show "\<exists>c. validateToken cfg now svc (Jwt p k) Access
      = Inl (UnauthorizedException (InvalidToken c))"
    by (simp add: validateToken_def jwt_verify_def split: option.splits)
qed

theorem issue_verify_roundtrip_witness:
  "(\<exists>d. validateToken scenarioConfig 1000 scenarioAuth
          (generateAccessToken scenarioConfig 1000 adminUser) Access = Inr d
        \<and> jwt_sub d = Some (pid adminUser) \<and> jwt_type d = Some ''access'')
   \<and> (\<exists>d. validateToken scenarioConfig 1000 scenarioAuth
          (generateRefreshToken scenarioConfig 1000 adminUser) Refresh = Inr d
        \<and> jwt_sub d = Some (pid adminUser) \<and> jwt_type d = Some ''refresh'')
   \<and> (\<exists>c. validateToken scenarioConfig 1000 scenarioAuth scenarioRefreshToken Access
          = Inl (UnauthorizedException (InvalidToken c)))"
proof -
  have a: "findUserByPid scenarioAuth (Some (pid adminUser)) = Some adminUser"
    by (simp add: scenario_defs token_defs)
  have b: "isActive adminUser"
    by (simp add: scenario_defs)
  have c: "0 < accessTokenExpiry scenarioConfig" "0 < refreshTokenExpiry scenarioConfig"
    by (simp_all add: scenario_defs)
  have d: "\<not> isTokenBlacklisted scenarioAuth (generateAccessToken scenarioConfig 1000 adminUser)"
    "\<not> isTokenBlacklisted scenarioAuth (generateRefreshToken scenarioConfig 1000 adminUser)"
    by (simp_all add: scenario_defs token_defs)
  have e: "scenarioRefreshToken = Jwt scenarioRefreshClaims (secret scenarioConfig)"
    by (simp add: scenario_defs token_defs)
  have f: "jwt_type scenarioRefreshClaims = Some ''refresh''"
    by (simp add: scenario_defs)
  from issue_verify_roundtrip[of scenarioAuth adminUser scenarioConfig 1000 scenarioRefreshClaims
      "secret scenarioConfig"] a b c d f
  show ?thesis unfolding e by simp
qed

text \<open>A stored principal that is not active: the access token issued to it is refused at
  the very moment it is issued.\<close>

theorem issue_verify_roundtrip_counterexample:
  "findUserByPid scenarioAuthInactive (Some (pid (adminUser\<lparr>isActive := False\<rparr>)))
      = Some (adminUser\<lparr>isActive := False\<rparr>)
   \<and> validateToken scenarioConfig 1000 scenarioAuthInactive
       (generateAccessToken scenarioConfig 1000 (adminUser\<lparr>isActive := False\<rparr>)) Access
     = Inl (UnauthorizedException (InvalidToken UserMissingOrInactive))"
  by (simp add: scenario_defs token_defs)


section \<open>The action format\<close>

text \<open>
  Claim C7, as the code has it. For an action that does not contain exactly one colon,
  neither \<open>createPermission\<close> nor \<open>findOrCreatePermissionInternal\<close> stores a row, and each
  rejects the call with the format error provided the table holds no row with the same
  method, (normalized) route and action. Both look the triple up before they check the
  format.
\<close>

theorem malformed_action_not_stored:
  assumes "count_list a CHR '':'' \<noteq> 1"
  shows "fst (createPermission svc m r a) = svc
     \<and> fst (findOrCreatePermissionInternal svc m r a) = svc
     \<and> (find (\<lambda>p. p_method p = m \<and> p_route p = r \<and> p_action p = a) (permissionRepo svc) = None
          \<longrightarrow> snd (createPermission svc m r a) = Inl (Error ActionFormat))
     \<and> (find (\<lambda>p. p_method p = m \<and> p_route p = normalizeRouteForStorage r \<and> p_action p = a)
            (permissionRepo svc) = None
          \<longrightarrow> snd (findOrCreatePermissionInternal svc m r a) = Inl (Error ActionFormat))"
  using assms
  by (auto simp: createPermission_def findOrCreatePermissionInternal_def
      invalidActionFormat_count Let_def split: option.splits)

text \<open>The two actions of the specification, on both creating paths.\<close>

theorem malformed_action_not_stored_witness:
  "createPermission scenarioCatalog ''GET'' ''/users'' ''UserList''
     = (scenarioCatalog, Inl (Error ActionFormat))
   \<and> createPermission scenarioCatalog ''GET'' ''/users'' ''user:list:extra''
     = (scenarioCatalog, Inl (Error ActionFormat))
   \<and> findOrCreatePermissionInternal scenarioCatalog ''GET'' ''/api/v1/users'' ''UserList''
     = (scenarioCatalog, Inl (Error ActionFormat))
   \<and> findOrCreatePermissionInternal scenarioCatalog ''GET'' ''/api/v1/users'' ''user:list:extra''
     = (scenarioCatalog, Inl (Error ActionFormat))"
proof -
  have a: "count_list ''UserList'' CHR '':'' \<noteq> 1" by simp
  have b: "count_list ''user:list:extra'' CHR '':'' \<noteq> 1" by simp
  have c: "normalizeRouteForStorage ''/api/v1/users'' = ''/users''"
    by (simp add: normalizeRouteForStorage_def stripApiVersion_def startsWith_def isDigit_def)
  from malformed_action_not_stored[OF a, of scenarioCatalog "''GET''" "''/users''"]
    malformed_action_not_stored[OF b, of scenarioCatalog "''GET''" "''/users''"]
    malformed_action_not_stored[OF a, of scenarioCatalog "''GET''" "''/api/v1/users''"]
    malformed_action_not_stored[OF b, of scenarioCatalog "''GET''" "''/api/v1/users''"]
  show ?thesis
    by (simp add: c prod_eq_iff) (simp add: scenario_defs)
qed

text \<open>A table that already holds \<open>(GET, /users, UserList)\<close>: the internal path returns
  the stored row without any error, and \<open>createPermission\<close> reports the duplicate, not
  the format.\<close>

theorem malformed_action_not_stored_counterexample:
  "count_list ''UserList'' CHR '':'' = 0
   \<and> findOrCreatePermissionInternal legacyCatalog ''GET'' ''/users'' ''UserList''
      = (legacyCatalog, Inr \<lparr>p_method = ''GET'', p_route = ''/users'', p_action = ''UserList''\<rparr>)
   \<and> snd (createPermission legacyCatalog ''GET'' ''/users'' ''UserList'')
      = Inl (Error PermissionAlreadyExists)"
  by (simp add: legacyCatalog_def findOrCreatePermission_def findOrCreatePermissionInternal_def
      createPermission_def normalizeRouteForStorage_def stripApiVersion_def startsWith_def Let_def)


section \<open>Logout\<close>





section \<open>Refresh\<close>

text \<open>
  Claim C9, as the code has it. \<open>refreshAccessToken\<close> changes nothing in the store: the
  revoked set after it is the revoked set before it, so the verification of any token
  at any later moment is what it would have been without the call. When the refresh
  token verifies and the principal fetched for its subject is active, the result is a
  new pair, an access and a refresh token signed for that principal at the moment of
  the call, and the old refresh token is still not revoked and still verifies. When
  the refresh token verifies and no principal is found for its subject, or the one
  found is not active, nothing is issued; nor is anything issued for a refresh token
  that does not verify. The principal fetched for a subject is the stored one with
  that external id, ids being unique in the store, and none when no stored principal
  has it.
\<close>

theorem refresh_keeps_blacklist:
  "fst (refreshAccessToken cfg now svc t) = svc
   \<and> validateToken cfg later (fst (refreshAccessToken cfg now svc t)) t' ty
       = validateToken cfg later svc t' ty
   \<and> (validateToken cfg now svc t Refresh = Inr d \<and> findUserByPid svc (jwt_sub d) = Some u
        \<and> isActive u \<longrightarrow>
       snd (refreshAccessToken cfg now svc t)
         = Some (generateAccessToken cfg now u, generateRefreshToken cfg now u)
       \<and> \<not> isTokenBlacklisted (fst (refreshAccessToken cfg now svc t)) t
       \<and> validateToken cfg now (fst (refreshAccessToken cfg now svc t)) t Refresh = Inr d)
   \<and> (validateToken cfg now svc t Refresh = Inr d \<and> findUserByPid svc (jwt_sub d) = Some u
        \<and> \<not> isActive u \<longrightarrow>
       snd (refreshAccessToken cfg now svc t) = None)
   \<and> (validateToken cfg now svc t Refresh = Inr d \<and> findUserByPid svc (jwt_sub d) = None \<longrightarrow>
       snd (refreshAccessToken cfg now svc t) = None)
   \<and> (validateToken cfg now svc t Refresh = Inl e \<longrightarrow>
       snd (refreshAccessToken cfg now svc t) = None)
   \<and> (jwt_sub d = Some s \<and> distinct (map pid (userRepository svc))
        \<and> u \<in> set (userRepository svc) \<and> pid u = s \<longrightarrow>
       findUserByPid svc (jwt_sub d) = Some u)
   \<and> (jwt_sub d = Some s \<and> s \<notin> set (map pid (userRepository svc)) \<longrightarrow>
       findUserByPid svc (jwt_sub d) = None)"
proof -
  have frame:
    "fst (refreshAccessToken cfg now svc t) = svc"
    by (simp add: refreshAccessToken_def split: sum.splits option.splits)
  have later:
    "validateToken cfg later (fst (refreshAccessToken cfg now svc t)) t' ty
       = validateToken cfg later svc t' ty"
    by (simp add: frame)
  have issued:
    "(validateToken cfg now svc t Refresh = Inr d \<and> findUserByPid svc (jwt_sub d) = Some u
        \<and> isActive u \<longrightarrow>
       snd (refreshAccessToken cfg now svc t)
         = Some (generateAccessToken cfg now u, generateRefreshToken cfg now u)
       \<and> \<not> isTokenBlacklisted (fst (refreshAccessToken cfg now svc t)) t
       \<and> validateToken cfg now (fst (refreshAccessToken cfg now svc t)) t Refresh = Inr d)"
    by (auto simp: frame) (auto simp: refreshAccessToken_def validateToken_def split: if_splits)
  have inactive:
    "(validateToken cfg now svc t Refresh = Inr d \<and> findUserByPid svc (jwt_sub d) = Some u
        \<and> \<not> isActive u \<longrightarrow>
       snd (refreshAccessToken cfg now svc t) = None)"
    by (simp add: refreshAccessToken_def)
  have missing:
    "(validateToken cfg now svc t Refresh = Inr d \<and> findUserByPid svc (jwt_sub d) = None \<longrightarrow>
       snd (refreshAccessToken cfg now svc t) = None)"
    by (simp add: refreshAccessToken_def)
  have invalid:
    "(validateToken cfg now svc t Refresh = Inl e \<longrightarrow>
       snd (refreshAccessToken cfg now svc t) = None)"
    by (simp add: refreshAccessToken_def)
  have fetched:
    "(jwt_sub d = Some s \<and> distinct (map pid (userRepository svc))
        \<and> u \<in> set (userRepository svc) \<and> pid u = s \<longrightarrow>
       findUserByPid svc (jwt_sub d) = Some u)"
    by (auto simp: findUserByPid_def find_stored_pid)
  have absent:
    "(jwt_sub d = Some s \<and> s \<notin> set (map pid (userRepository svc)) \<longrightarrow>
       findUserByPid svc (jwt_sub d) = None)"
    by (auto simp: findUserByPid_def find_absent_pid)
  from frame later issued inactive missing invalid fetched absent show ?thesis
    by (intro conjI) assumption+
qed

text \<open>The refresh token of the deployment: a new pair while its principal is active,
  nothing once the principal is deactivated, nothing once the principal is gone, and
  nothing for a token signed with another key.\<close>

theorem refresh_keeps_blacklist_witness:
  "refreshAccessToken scenarioConfig 1001 scenarioAuth scenarioRefreshToken
     = (scenarioAuth, Some (generateAccessToken scenarioConfig 1001 adminUser,
                            generateRefreshToken scenarioConfig 1001 adminUser))
   \<and> validateToken scenarioConfig 1001 scenarioAuth scenarioRefreshToken Refresh
       = Inr scenarioRefreshClaims
   \<and> refreshAccessToken scenarioConfig 1001 scenarioAuthInactive scenarioRefreshToken
       = (scenarioAuthInactive, None)
   \<and> refreshAccessToken scenarioConfig 1001 scenarioAuthNobody scenarioRefreshToken
       = (scenarioAuthNobody, None)
   \<and> refreshAccessToken scenarioConfig 1001 scenarioAuth expiredForeignToken
       = (scenarioAuth, None)"
proof -
  have a: "validateToken scenarioConfig 1001 scenarioAuth scenarioRefreshToken Refresh
       = Inr scenarioRefreshClaims"
    "validateToken scenarioConfig 1001 scenarioAuthInactive scenarioRefreshToken Refresh
       = Inr scenarioRefreshClaims"
    "validateToken scenarioConfig 1001 scenarioAuthNobody scenarioRefreshToken Refresh
       = Inr scenarioRefreshClaims"
    by (simp_all add: scenarioAuthNobody_def scenario_defs token_defs)
  have b: "findUserByPid scenarioAuth (jwt_sub scenarioRefreshClaims) = Some adminUser"
    "findUserByPid scenarioAuthInactive (jwt_sub scenarioRefreshClaims)
       = Some (adminUser\<lparr>isActive := False\<rparr>)"
    "findUserByPid scenarioAuthNobody (jwt_sub scenarioRefreshClaims) = None"
    by (simp_all add: scenarioAuthNobody_def scenario_defs token_defs)
  have c: "isActive adminUser" "\<not> isActive (adminUser\<lparr>isActive := False\<rparr>)"
    by (simp_all add: scenario_defs)
  have d: "validateToken scenarioConfig 1001 scenarioAuth expiredForeignToken Refresh
       = Inl (UnauthorizedException (InvalidToken JwtVerifyFailed))"
    by (simp add: expiredForeignToken_def scenario_defs token_defs)
  from refresh_keeps_blacklist[of scenarioConfig 1001 scenarioAuth scenarioRefreshToken
      1001 scenarioRefreshToken Refresh scenarioRefreshClaims adminUser] a b c
  have one: "refreshAccessToken scenarioConfig 1001 scenarioAuth scenarioRefreshToken
     = (scenarioAuth, Some (generateAccessToken scenarioConfig 1001 adminUser,
                            generateRefreshToken scenarioConfig 1001 adminUser))"
    by (simp add: prod_eq_iff)
  from refresh_keeps_blacklist[of scenarioConfig 1001 scenarioAuthInactive scenarioRefreshToken
      1001 scenarioRefreshToken Refresh scenarioRefreshClaims "adminUser\<lparr>isActive := False\<rparr>"]
    a b c
  have two: "refreshAccessToken scenarioConfig 1001 scenarioAuthInactive scenarioRefreshToken
       = (scenarioAuthInactive, None)"
    by (simp add: prod_eq_iff)
  from refresh_keeps_blacklist[of scenarioConfig 1001 scenarioAuthNobody scenarioRefreshToken
      1001 scenarioRefreshToken Refresh scenarioRefreshClaims] a b
  have three: "refreshAccessToken scenarioConfig 1001 scenarioAuthNobody scenarioRefreshToken
       = (scenarioAuthNobody, None)"
    by (simp add: prod_eq_iff)
  from refresh_keeps_blacklist[of scenarioConfig 1001 scenarioAuth expiredForeignToken
      1001 scenarioRefreshToken Refresh _ _
      "UnauthorizedException (InvalidToken JwtVerifyFailed)"] d
  have four: "refreshAccessToken scenarioConfig 1001 scenarioAuth expiredForeignToken
       = (scenarioAuth, None)"
    by (simp add: prod_eq_iff)
  from one two three four a show ?thesis by simp
qed

text \<open>The principal was deactivated after the refresh token was issued: the token still
  verifies as a refresh token, and refreshing with it issues nothing.\<close>

theorem refresh_keeps_blacklist_counterexample:
  "validateToken scenarioConfig 1001 scenarioAuthInactive scenarioRefreshToken Refresh
     = Inr scenarioRefreshClaims
   \<and> snd (refreshAccessToken scenarioConfig 1001 scenarioAuthInactive scenarioRefreshToken)
       = None"
  by (simp add: refreshAccessToken_def scenario_defs token_defs)


section \<open>Authorizing without roles\<close>

text \<open>
  Claim C10, as the code has it. When \<open>authorize\<close> runs on a request with no user
  attached, or with a user whose role list is missing or empty, the outcome is never
  a pass and never Unauthorized. It is Forbidden, for every state of the catalog and
  of the store, whenever the route of the request can be derived, that is, the
  original URL is empty or the URL class yields a pathname for it against the \<open>Host\<close>
  header: the role list defaults to the empty one, and \<open>isAuthorized\<close> answers false
  for the empty list whatever the grants are. When the URL class throws on the
  original URL or the \<open>Host\<close> header, \<open>authorize\<close> hands that error on instead, before
  catalog or store are asked.
\<close>

theorem authorize_without_roles_forbidden:
  assumes "req_user req = None
           \<or> (\<exists>u. req_user req = Some u \<and> (jwt_roles u = None \<or> jwt_roles u = Some []))"
  shows "(req_originalUrl req = [] \<longrightarrow>
            snd (authorize url authSvc permSvc req) = Inl ForbiddenException)
       \<and> (url (req_originalUrl req) (urlBase req) = Some pathname \<longrightarrow>
            snd (authorize url authSvc permSvc req) = Inl ForbiddenException)
       \<and> (req_originalUrl req \<noteq> [] \<and> url (req_originalUrl req) (urlBase req) = None \<longrightarrow>
            authorize url authSvc permSvc req = (permSvc, Inl TypeError))
       \<and> isAuthorized anyStore [] m a = False"
proof -
  from assms have none: "requestRoles req = []"
    by (auto simp: requestRoles_def)
  have route: "getFullRoutePath url req = Inr p \<Longrightarrow>
      snd (authorize url authSvc permSvc req) = Inl ForbiddenException" for p
    using none
    by (simp add: authorize_def inferAction_def isAuthorized_def Let_def split: prod.splits option.splits)
  have empty: "req_originalUrl req = [] \<Longrightarrow> \<exists>p. getFullRoutePath url req = Inr p"
    by (simp add: getFullRoutePath_def Let_def)
  have parsed: "url (req_originalUrl req) (urlBase req) = Some pathname \<Longrightarrow>
      \<exists>p. getFullRoutePath url req = Inr p"
    by (simp add: getFullRoutePath_def Let_def)
  have thrown: "req_originalUrl req \<noteq> [] \<and> url (req_originalUrl req) (urlBase req) = None \<Longrightarrow>
      authorize url authSvc permSvc req = (permSvc, Inl TypeError)"
    by (simp add: authorize_def inferAction_def getFullRoutePath_def Let_def)
  from route empty parsed thrown show ?thesis
    by (auto simp: isAuthorized_def)
qed

text \<open>The request of the deployment without a user, and with a user without roles.\<close>

theorem authorize_without_roles_forbidden_witness:
  "snd (authorize exampleUrl scenarioAuth scenarioCatalog scenarioRequest)
     = Inl ForbiddenException
   \<and> snd (authorize exampleUrl scenarioAuth scenarioCatalog
            (scenarioRequest\<lparr>req_user := Some (scenarioClaims\<lparr>jwt_roles := Some []\<rparr>)\<rparr>))
       = Inl ForbiddenException"
proof -
  let ?r = "scenarioRequest\<lparr>req_user := Some (scenarioClaims\<lparr>jwt_roles := Some []\<rparr>)\<rparr>"
  have a: "req_user scenarioRequest = None" by (simp add: scenario_defs)
  have b: "\<exists>u. req_user ?r = Some u \<and> (jwt_roles u = None \<or> jwt_roles u = Some [])"
    by simp
  have c: "exampleUrl (req_originalUrl scenarioRequest) (urlBase scenarioRequest)
      = Some ''/api/v1/users''"
    "exampleUrl (req_originalUrl ?r) (urlBase ?r) = Some ''/api/v1/users''"
    by (simp_all add: scenario_defs exampleUrl_def knownUrlAnswers_def urlBase_def)
  from authorize_without_roles_forbidden[where req = scenarioRequest and url = exampleUrl
      and pathname = "''/api/v1/users''" and authSvc = scenarioAuth
      and permSvc = scenarioCatalog]
    authorize_without_roles_forbidden[where req = "?r" and url = exampleUrl
      and pathname = "''/api/v1/users''" and authSvc = scenarioAuth
      and permSvc = scenarioCatalog] a b c
  show ?thesis by blast
qed

text \<open>The same request, no user attached, with a \<open>Host\<close> header whose port is out of
  range: the URL class throws, and \<open>authorize\<close> hands the error on; the outcome is not
  Forbidden.\<close>

theorem authorize_without_roles_forbidden_counterexample:
  "req_user badHostRequest = None
   \<and> urlBase badHostRequest = ''http://localhost:99999''
   \<and> authorize exampleUrl scenarioAuth scenarioCatalog badHostRequest
       = (scenarioCatalog, Inl TypeError)"
  by (simp add: badHostRequest_def scenario_defs authorize_def inferAction_def
      getFullRoutePath_def urlBase_def exampleUrl_def knownUrlAnswers_def requestRoles_def
      Let_def)

end
